theory Spec2Isabelle
  imports Complex_Main
begin

section \<open>Floating-point values and numpy arithmetic\<close>

text \<open>
  A float64 is modelled as an exact real number, or one of the three special values
  NaN, -inf and +inf. Rounding, overflow of finite results and the sign of zero are
  outside the model: finite arithmetic is exact. The special values follow IEEE 754
  as numpy applies it (a NaN operand gives NaN, inf - inf = NaN, 0 * inf = NaN,
  comparisons with NaN are false).
\<close>

datatype pyfloat = NaN | NInf | Num real | PInf

datatype error = ValueError | TypeError | IndexError

fun pneg :: "pyfloat \<Rightarrow> pyfloat" where
  "pneg NaN = NaN"
| "pneg NInf = PInf"
| "pneg (Num a) = Num (- a)"
| "pneg PInf = NInf"

fun padd :: "pyfloat \<Rightarrow> pyfloat \<Rightarrow> pyfloat" where
  "padd (Num a) (Num b) = Num (a + b)"
| "padd NaN y = NaN"
| "padd x NaN = NaN"
| "padd PInf NInf = NaN"
| "padd NInf PInf = NaN"
| "padd PInf y = PInf"
| "padd NInf y = NInf"
| "padd x PInf = PInf"
| "padd x NInf = NInf"

definition psub :: "pyfloat \<Rightarrow> pyfloat \<Rightarrow> pyfloat" where
  "psub x y = padd x (pneg y)"

text \<open>The sign of a value: 1, -1, or 0 for zero and NaN.\<close>

fun psign :: "pyfloat \<Rightarrow> int" where
  "psign NaN = 0"
| "psign NInf = - 1"
| "psign (Num a) = (if 0 < a then 1 else if a < 0 then - 1 else 0)"
| "psign PInf = 1"

fun pmul :: "pyfloat \<Rightarrow> pyfloat \<Rightarrow> pyfloat" where
  "pmul (Num a) (Num b) = Num (a * b)"
| "pmul NaN y = NaN"
| "pmul x NaN = NaN"
| "pmul x y =
     (if psign x * psign y = 0 then NaN
      else if 0 < psign x * psign y then PInf else NInf)"

fun pdiv :: "pyfloat \<Rightarrow> pyfloat \<Rightarrow> pyfloat" where
  "pdiv (Num a) (Num b) =
     (if b \<noteq> 0 then Num (a / b)
      else if a = 0 then NaN else if 0 < a then PInf else NInf)"
| "pdiv NaN y = NaN"
| "pdiv x NaN = NaN"
| "pdiv (Num a) y = Num 0"
| "pdiv x (Num b) = (if 0 \<le> psign x * (if b < 0 then - 1 else 1) then PInf else NInf)"
| "pdiv x y = NaN"

fun psqrt :: "pyfloat \<Rightarrow> pyfloat" where
  "psqrt NaN = NaN"
| "psqrt NInf = NaN"
| "psqrt (Num a) = (if a < 0 then NaN else Num (sqrt a))"
| "psqrt PInf = PInf"

text \<open>The comparison \<open><\<close> of two floats: false as soon as one side is NaN.\<close>

fun plt :: "pyfloat \<Rightarrow> pyfloat \<Rightarrow> bool" where
  "plt (Num a) (Num b) = (a < b)"
| "plt NaN y = False"
| "plt x NaN = False"
| "plt PInf y = False"
| "plt x NInf = False"
| "plt NInf y = True"
| "plt x PInf = True"

text \<open>\<open>np.log1p\<close> and \<open>np.expm1\<close>: log(1 + x) and exp(x) - 1.\<close>

fun log1p :: "pyfloat \<Rightarrow> pyfloat" where
  "log1p NaN = NaN"
| "log1p NInf = NaN"
| "log1p (Num a) = (if - 1 < a then Num (ln (1 + a)) else if a = - 1 then NInf else NaN)"
| "log1p PInf = PInf"

fun expm1 :: "pyfloat \<Rightarrow> pyfloat" where
  "expm1 NaN = NaN"
| "expm1 NInf = Num (- 1)"
| "expm1 (Num a) = Num (exp a - 1)"
| "expm1 PInf = PInf"

definition isna :: "pyfloat \<Rightarrow> bool" where
  "isna v = (v = NaN)"

definition np_sum :: "pyfloat list \<Rightarrow> pyfloat" where
  "np_sum xs = foldl padd (Num 0) xs"

text \<open>\<open>np.mean\<close>: the sum over the count; 0/0 = NaN on an empty array.\<close>

definition np_mean :: "pyfloat list \<Rightarrow> pyfloat" where
  "np_mean xs = pdiv (np_sum xs) (Num (real (length xs)))"

text \<open>\<open>np.std\<close> (ddof = 0): the root of the mean squared deviation from the mean.\<close>

definition np_std :: "pyfloat list \<Rightarrow> pyfloat" where
  "np_std xs =
     (let arrmean = np_mean xs;
          x = map (\<lambda>v. psub v arrmean) xs
      in psqrt (np_mean (map (\<lambda>d. pmul d d) x)))"

fun cumsum_acc :: "pyfloat \<Rightarrow> pyfloat list \<Rightarrow> pyfloat list" where
  "cumsum_acc a [] = []"
| "cumsum_acc a (x # xs) = padd a x # cumsum_acc (padd a x) xs"

text \<open>\<open>np.cumsum\<close>: the running sums, the first element as it is.\<close>

definition np_cumsum :: "pyfloat list \<Rightarrow> pyfloat list" where
  "np_cumsum xs = (case xs of [] \<Rightarrow> [] | x # rest \<Rightarrow> x # cumsum_acc x rest)"

section \<open>pandas Series\<close>

text \<open>
  A Series is a list of (label, value) rows in positional order. Labels are integers;
  the default index of \<open>pd.Series(values)\<close> is 0, 1, ..., n - 1. The operations that
  align two Series by label (\<open>where\<close> with a Series, \<open>fillna\<close> with a Series) are
  modelled for indexes without duplicate labels, which is what the data model requires
  of a time series.
\<close>

type_synonym series = "(int \<times> pyfloat) list"

definition range_index :: "nat \<Rightarrow> int list" where
  "range_index n = map int [0..<n]"

definition pd_Series :: "pyfloat list \<Rightarrow> series" where
  "pd_Series vs = zip (range_index (length vs)) vs"

definition index_of :: "series \<Rightarrow> int list" where
  "index_of s = map fst s"

definition values_of :: "series \<Rightarrow> pyfloat list" where
  "values_of s = map snd s"

text \<open>Label lookup as reindexing does it: a label that is absent gives NaN.\<close>

definition lookup :: "series \<Rightarrow> int \<Rightarrow> pyfloat" where
  "lookup s l = (case map_of s l of None \<Rightarrow> NaN | Some v \<Rightarrow> v)"

text \<open>\<open>s.diff()\<close>: positional first difference, NaN in the first row.\<close>

fun diff_from :: "pyfloat \<Rightarrow> series \<Rightarrow> series" where
  "diff_from prev [] = []"
| "diff_from prev ((l, v) # rest) = (l, psub v prev) # diff_from v rest"

definition series_diff :: "series \<Rightarrow> series" where
  "series_diff s = (case s of [] \<Rightarrow> [] | (l, v) # rest \<Rightarrow> (l, NaN) # diff_from v rest)"

definition dropna :: "series \<Rightarrow> series" where
  "dropna s = filter (\<lambda>(l, v). \<not> isna v) s"

text \<open>One round of first differencing: \<open>s.diff().dropna()\<close>.\<close>

definition diff_dropna :: "series \<Rightarrow> series" where
  "diff_dropna s = dropna (series_diff s)"

text \<open>
  \<open>s.where(s.notna(), other)\<close>: keep the non-NaN rows, take the others from \<open>other\<close>
  by label.
\<close>

definition where_notna :: "series \<Rightarrow> series \<Rightarrow> series" where
  "where_notna s other = map (\<lambda>(l, v). (l, if \<not> isna v then v else lookup other l)) s"

text \<open>\<open>s.fillna(other)\<close> with a Series: a NaN row takes the value \<open>other\<close> has at its label.\<close>

definition fillna :: "series \<Rightarrow> series \<Rightarrow> series" where
  "fillna s other = map (\<lambda>(l, v). (l, if isna v then lookup other l else v)) s"

section \<open>The statistics library\<close>

text \<open>
  The numerical routines of statsmodels and scipy are not part of the repository; the
  functions below take them as a parameter:
  \<^item> \<open>adfuller\<close>: the p-value (\<open>result[1]\<close>) of the augmented Dickey-Fuller test, or
    the exception the routine raises (statsmodels raises ValueError on a constant series
    and on a series too short for the regression);
  \<^item> \<open>minimize\<close>: the point \<open>result.x\<close> the Nelder-Mead search returns for an objective
    and a start point;
  \<^item> \<open>norm_logpdf x mu sigma\<close> and \<open>norm_ppf q\<close>: the normal log-density and quantile;
  \<^item> \<open>lowess endog exog frac it\<close>: the rows (x, fitted value) of the smoother.
\<close>

record stats_lib =
  adfuller :: "pyfloat list \<Rightarrow> error + pyfloat"
  minimize :: "(pyfloat \<times> pyfloat \<Rightarrow> pyfloat) \<Rightarrow> pyfloat \<times> pyfloat \<Rightarrow> pyfloat \<times> pyfloat"
  norm_logpdf :: "pyfloat \<Rightarrow> pyfloat \<Rightarrow> pyfloat \<Rightarrow> pyfloat"
  norm_ppf :: "real \<Rightarrow> pyfloat"
  lowess :: "pyfloat list \<Rightarrow> int list \<Rightarrow> real \<Rightarrow> int \<Rightarrow> (pyfloat \<times> pyfloat) list"

section \<open>Stationarity transform\<close>

text \<open>
  \<open>adf_test\<close> calls \<open>adfuller\<close> with nothing around it: an exception of the routine
  leaves \<open>adf_test\<close>, and with it \<open>make_stationary\<close>.
\<close>

definition adf_test :: "stats_lib \<Rightarrow> series \<Rightarrow> pyfloat \<Rightarrow> error + bool" where
  "adf_test L y_series critical_val =
     (case adfuller L (values_of y_series) of
        Inl e \<Rightarrow> Inl e
      | Inr p_value \<Rightarrow> Inr (plt p_value critical_val))"

definition default_critical_val :: pyfloat where
  "default_critical_val = Num (5 / 100)"

text \<open>
  The loop of \<open>make_stationary\<close>, on its variables \<open>diff_series\<close>, \<open>is_stationary\<close>
  and \<open>i\<close>.
\<close>

function make_stationary_loop ::
  "stats_lib \<Rightarrow> series \<Rightarrow> bool \<Rightarrow> int \<Rightarrow> int \<Rightarrow> error + series \<times> bool \<times> int" where
  "make_stationary_loop L diff_series is_stationary i max_diff =
     (if \<not> is_stationary \<and> i < max_diff then
        (case adf_test L (diff_dropna diff_series) default_critical_val of
           Inl e \<Rightarrow> Inl e
         | Inr is_stationary' \<Rightarrow>
             make_stationary_loop L (diff_dropna diff_series) is_stationary' (i + 1) max_diff)
      else Inr (diff_series, is_stationary, i))"
  by pat_completeness auto
termination
  by (relation "measure (\<lambda>(L, s, st, i, md). nat (md - i))") auto

declare make_stationary_loop.simps [simp del]

definition make_stationary :: "stats_lib \<Rightarrow> series \<Rightarrow> int \<Rightarrow> error + series \<times> int" where
  "make_stationary L y_series max_diff =
     (case adf_test L y_series default_critical_val of
        Inl e \<Rightarrow> Inl e
      | Inr is_stationary0 \<Rightarrow>
          (case make_stationary_loop L y_series is_stationary0 0 max_diff of
             Inl e \<Rightarrow> Inl e
           | Inr (diff_series, is_stationary, i) \<Rightarrow>
               if \<not> is_stationary then Inr (y_series, 0) else Inr (diff_series, i)))"

text \<open>\<open>k\<close> rounds of first differencing, each dropping the undefined leading row.\<close>

definition diff_times :: "nat \<Rightarrow> series \<Rightarrow> series" where
  "diff_times k s = (diff_dropna ^^ k) s"

section \<open>Statistical estimator\<close>

definition neg_log_likelihood :: "stats_lib \<Rightarrow> pyfloat \<times> pyfloat \<Rightarrow> pyfloat list \<Rightarrow> pyfloat" where
  "neg_log_likelihood L params y_array =
     (case params of (mu, sigma) \<Rightarrow>
        pneg (np_sum (map (\<lambda>y. norm_logpdf L y mu sigma) y_array)))"

text \<open>
  \<open>estimate_normal_params\<close> returns the estimated (mu, sigma). The second component of
  the model's result is the caller's Series object as the call leaves it: the function
  rebinds its local name to a copy and to a filtered selection, and assigns nothing into
  the object it was given.
\<close>

definition estimate_normal_params ::
  "stats_lib \<Rightarrow> series \<Rightarrow> (pyfloat \<times> pyfloat) \<times> series" where
  "estimate_normal_params L caller_series =
     (let y_series = caller_series;
          y_series = filter (\<lambda>(l, v). \<not> isna v \<and> v \<noteq> Num 0) y_series;
          mu_guess = np_mean (values_of y_series);
          sigma_guess = np_std (values_of y_series);
          result_x = minimize L (\<lambda>params. neg_log_likelihood L params (values_of y_series))
                       (mu_guess, sigma_guess)
      in (result_x, caller_series))"

section \<open>Local regression smoother\<close>

definition smooth_lowess :: "stats_lib \<Rightarrow> series \<Rightarrow> int \<Rightarrow> int \<Rightarrow> error + series" where
  "smooth_lowess L y_series smoothing_window smoothing_iterations =
     (if smoothing_window < 3 \<or> smoothing_window > int (length y_series) then Inl ValueError
      else if list_ex isna (values_of y_series) \<or> list_ex (\<lambda>v. v = Num 0) (values_of y_series)
        then Inl ValueError
      else
        (let endog = map log1p (values_of y_series);
             exog = range_index (length y_series);
             frac = real_of_int smoothing_window / real (length y_series);
             rows = lowess L endog exog frac smoothing_iterations;
             y_smooth = map expm1 (map snd rows)
         in Inr (pd_Series y_smooth)))"

section \<open>Missing-data pipeline\<close>

text \<open>\<open>y_nan\<close>: the input with its zeros replaced by NaN.\<close>

definition zeros_to_nan :: "series \<Rightarrow> series" where
  "zeros_to_nan y_series = map (\<lambda>(l, v). (l, if v = Num 0 then NaN else v)) y_series"

text \<open>
  The first part of \<open>interpolate_stock_prices\<close>, up to the inverse log transform: the
  value of \<open>series_filled\<close> that is handed to the smoother, or the ValueError for
  negative values, or the exception of the unit-root test.
\<close>

definition interpolate_series_filled ::
  "stats_lib \<Rightarrow> series \<Rightarrow> bool \<Rightarrow> bool \<Rightarrow> error + pyfloat list" where
  "interpolate_series_filled L y_series log_transform allow_negative_values =
     (let y_nan = zeros_to_nan y_series;
          no_nan_y = filter (\<lambda>(l, v). v \<noteq> Num 0 \<and> \<not> isna v) y_series;
          no_nan_y = (if log_transform then map (\<lambda>(l, v). (l, log1p v)) no_nan_y else no_nan_y)
      in if \<not> log_transform \<and> \<not> allow_negative_values
            \<and> list_ex (\<lambda>x. plt x (Num 0)) (values_of no_nan_y)
         then Inl ValueError
         else
           (case make_stationary L no_nan_y 2 of
              Inl e \<Rightarrow> Inl e
            | Inr (stationary_series, num_diff) \<Rightarrow>
            (case fst (estimate_normal_params L stationary_series) of
               (mu_estimated, sigma_estimated) \<Rightarrow>
               (let y = where_notna y_nan stationary_series;
                    series_filled =
                      map (\<lambda>x. if \<not> isna x then x else mu_estimated) (values_of y);
                    series_filled = (np_cumsum ^^ nat num_diff) series_filled;
                    series_filled =
                      (if log_transform then map expm1 series_filled else series_filled)
                in Inr series_filled))))"

text \<open>
  The whole function: the filled series is smoothed, and the smoothed values fill the
  NaN rows of \<open>y_nan\<close>.
\<close>

definition interpolate_stock_prices ::
  "stats_lib \<Rightarrow> series \<Rightarrow> bool \<Rightarrow> bool \<Rightarrow> error + series" where
  "interpolate_stock_prices L y_series log_transform allow_negative_values =
     (let y_nan = zeros_to_nan y_series
      in case interpolate_series_filled L y_series log_transform allow_negative_values of
           Inl e \<Rightarrow> Inl e
         | Inr series_filled \<Rightarrow>
             (case smooth_lowess L (pd_Series series_filled) 4 3 of
                Inl e \<Rightarrow> Inl e
              | Inr filled_smooth \<Rightarrow> Inr (fillna y_nan filled_smooth)))"

section \<open>Model-order search\<close>

text \<open>A candidate order: the 3-tuple (p, d, q) or the 7-tuple (p, d, q, P, D, Q, s).\<close>

datatype order = PDQ int int int | PDQS int int int int int int int

definition py_range :: "int \<Rightarrow> int list" where
  "py_range n = [0..n - 1]"

definition generate_auto_arimax_test_params ::
  "int \<Rightarrow> int \<Rightarrow> int \<Rightarrow> int option \<Rightarrow> bool \<Rightarrow> int \<Rightarrow> int \<Rightarrow> int \<Rightarrow> int option
     \<Rightarrow> error + order list" where
  "generate_auto_arimax_test_params max_p max_d max_q d generate_seasonal_params
       max_P max_D max_Q seasonality_trend =
     (if generate_seasonal_params \<and> seasonality_trend = None then Inl ValueError
      else
        (let non_seasonal_params =
               (case d of
                  None \<Rightarrow> [(p, d', q). p \<leftarrow> py_range (max_p + 1), d' \<leftarrow> py_range (max_d + 1),
                                        q \<leftarrow> py_range (max_q + 1)]
                | Some d0 \<Rightarrow> [(p, d', q). p \<leftarrow> py_range (max_p + 1), d' \<leftarrow> [d0],
                                          q \<leftarrow> py_range (max_q + 1)])
         in case (generate_seasonal_params, seasonality_trend) of
              (True, Some s0) \<Rightarrow>
                (let seasonal_params =
                       [(P, D, Q, s). P \<leftarrow> py_range (max_P + 1), D \<leftarrow> py_range (max_D + 1),
                                      Q \<leftarrow> py_range (max_Q + 1), s \<leftarrow> [s0]];
                     arimax_test_params = List.product non_seasonal_params seasonal_params
                 in Inr (map (\<lambda>((p, d', q), (P, D, Q, s)). PDQS p d' q P D Q s)
                           arimax_test_params))
            | _ \<Rightarrow> Inr (map (\<lambda>(p, d', q). PDQ p d' q) non_seasonal_params)))"

text \<open>
  The ARIMA model of statsmodels, taken as a parameter: the constructor, which can
  raise, and \<open>fit\<close>, which can raise and otherwise gives the information criteria.
\<close>

record model_fit =
  aic :: pyfloat
  bic :: pyfloat

record 'm arima_lib =
  ARIMA :: "pyfloat list \<Rightarrow> pyfloat list list option \<Rightarrow> order \<Rightarrow> (int \<times> int \<times> int \<times> int) option
              \<Rightarrow> string option \<Rightarrow> error + 'm"
  fit :: "'m \<Rightarrow> error + model_fit"

text \<open>Rounding half to even, and Python's \<open>round(x, ndigits)\<close> to decimal places.\<close>

definition round_half_even :: "real \<Rightarrow> int" where
  "round_half_even r =
     (let f = \<lfloor>r\<rfloor>
      in if r - of_int f < 1 / 2 then f
         else if 1 / 2 < r - of_int f then f + 1
         else if even f then f else f + 1)"

fun py_round :: "pyfloat \<Rightarrow> nat \<Rightarrow> pyfloat" where
  "py_round (Num a) ndigits = Num (of_int (round_half_even (a * 10 ^ ndigits)) / 10 ^ ndigits)"
| "py_round x ndigits = x"

definition check_generated_arimax_params ::
  "'m arima_lib \<Rightarrow> pyfloat list \<Rightarrow> order \<Rightarrow> pyfloat list list option \<Rightarrow> string option
     \<Rightarrow> (int \<times> int \<times> int \<times> int) option \<Rightarrow> string \<Rightarrow> error + pyfloat" where
  "check_generated_arimax_params A y_array params exog_array trend_params seasonal_params
       penalty_criteria =
     (if exog_array = None \<and> trend_params \<noteq> None then Inl ValueError
      else
        (case ARIMA A y_array exog_array params seasonal_params trend_params of
           Inl e \<Rightarrow> Inl e
         | Inr arimax_model \<Rightarrow>
             (case fit A arimax_model of
                Inl e \<Rightarrow> Inr PInf
              | Inr model_fit \<Rightarrow>
                  if penalty_criteria = ''BIC'' then Inr (py_round (bic model_fit) 5)
                  else if penalty_criteria = ''AIC'' then Inr (py_round (aic model_fit) 5)
                  else Inl ValueError)))"

fun optimize_arimax_params ::
  "'m arima_lib \<Rightarrow> order list \<Rightarrow> pyfloat list \<Rightarrow> pyfloat list list option \<Rightarrow> string option
     \<Rightarrow> string \<Rightarrow> error + pyfloat list" where
  "optimize_arimax_params A [] y_array exog_array trend_params penalty_criteria = Inr []"
| "optimize_arimax_params A (params # params_chunk) y_array exog_array trend_params
       penalty_criteria =
     (case check_generated_arimax_params A y_array params exog_array trend_params None
             penalty_criteria of
        Inl e \<Rightarrow> Inl e
      | Inr result \<Rightarrow>
          (case optimize_arimax_params A params_chunk y_array exog_array trend_params
                  penalty_criteria of
             Inl e \<Rightarrow> Inl e
           | Inr results \<Rightarrow> Inr (result # results)))"

text \<open>
  \<open>np.array_split(xs, n)\<close> for \<open>n > 0\<close>: \<open>n\<close> contiguous chunks, the first
  \<open>len(xs) mod n\<close> of them one element longer.
\<close>

fun split_sizes :: "nat list \<Rightarrow> 'a list \<Rightarrow> 'a list list" where
  "split_sizes [] xs = []"
| "split_sizes (k # ks) xs = take k xs # split_sizes ks (drop k xs)"

definition array_split :: "'a list \<Rightarrow> nat \<Rightarrow> 'a list list" where
  "array_split xs n =
     (let each_section = length xs div n;
          extras = length xs mod n
      in split_sizes (replicate extras (each_section + 1) @ replicate (n - extras) each_section) xs)"

text \<open>
  \<open>pool.imap_unordered(func, items)\<close> applies \<open>func\<close> to each item, the item being its
  only argument, and yields the results in the order the tasks complete; \<open>completion\<close>
  lists the positions of the items in that order. An exception of a task is raised in
  the parent when its result is reached.
\<close>

definition imap_unordered :: "('a \<Rightarrow> error + 'r) \<Rightarrow> 'a list \<Rightarrow> nat list \<Rightarrow> (error + 'r) list" where
  "imap_unordered func items completion =
     map (\<lambda>j. func (items ! j)) (filter (\<lambda>j. j < length items) completion)"

text \<open>The loop \<open>for chunk_results in ...: results += chunk_results\<close>.\<close>

fun accumulate :: "pyfloat list \<Rightarrow> (error + pyfloat list) list \<Rightarrow> error + pyfloat list" where
  "accumulate results [] = Inr results"
| "accumulate results (Inl e # rest) = Inl e"
| "accumulate results (Inr chunk_results # rest) = accumulate (results @ chunk_results) rest"

text \<open>
  The items handed to the pool are the 5-tuples
  \<open>(chunk, y_array, exog_array, trend_params, penalty_criteria)\<close>, and the pool calls
  \<open>optimize_arimax_params(item)\<close>. The worker has five required parameters, so the
  call with one argument raises TypeError before the body runs.
\<close>

definition optimize_arimax_params_on_item ::
  "order list \<times> pyfloat list \<times> pyfloat list list option \<times> string option \<times> string
     \<Rightarrow> error + pyfloat list" where
  "optimize_arimax_params_on_item item = Inl TypeError"

text \<open>
  \<open>[result for chunk_results in results for result in chunk_results]\<close>: \<open>results\<close> is
  a flat list of floats, and iterating over a float raises TypeError.
\<close>

definition flatten_scores :: "pyfloat list \<Rightarrow> error + pyfloat list" where
  "flatten_scores results = (if results = [] then Inr [] else Inl TypeError)"

text \<open>Python's \<open>min\<close>: the first element, replaced by a later one that is smaller.\<close>

fun py_min_from :: "pyfloat \<Rightarrow> pyfloat list \<Rightarrow> pyfloat" where
  "py_min_from m [] = m"
| "py_min_from m (x # xs) = py_min_from (if plt x m then x else m) xs"

text \<open>
  The selection: \<open>test_results.index(min(test_results))\<close>, then
  \<open>arimax_test_params[min_score_index]\<close>.
\<close>

definition select_optimal :: "pyfloat list \<Rightarrow> order list \<Rightarrow> error + order" where
  "select_optimal test_results arimax_test_params =
     (case test_results of
        [] \<Rightarrow> Inl ValueError
      | x # xs \<Rightarrow>
          (let min_score = py_min_from x xs;
               min_score_index = length (takeWhile (\<lambda>v. v \<noteq> min_score) test_results)
           in if min_score_index < length arimax_test_params
              then Inr (arimax_test_params ! min_score_index)
              else Inl IndexError))"

text \<open>
  \<open>auto_arimax_optimizer\<close>. \<open>cpu_count\<close> is \<open>mp.cpu_count()\<close>, and \<open>completion\<close> the
  order in which the pool's tasks complete. With \<open>generate_seasonal_params\<close> set, the
  function calls that boolean, which raises TypeError.
\<close>

definition auto_arimax_optimizer ::
  "int \<Rightarrow> nat list \<Rightarrow> series \<Rightarrow> order list \<Rightarrow> pyfloat list list option \<Rightarrow> string option
     \<Rightarrow> string \<Rightarrow> bool \<Rightarrow> string option \<Rightarrow> int \<Rightarrow> int \<Rightarrow> error + order" where
  "auto_arimax_optimizer cpu_count completion y_series arimax_test_params exog_array
       trend_params penalty_criteria generate_seasonal_params seasonality_trend n_jobs max_cores =
     (if exog_array = None \<and> trend_params \<noteq> None then Inl ValueError
      else
        (let n_jobs = (if n_jobs < 1 then min cpu_count max_cores else n_jobs);
             n_jobs = min n_jobs (int (length arimax_test_params));
             y_array = values_of y_series
         in if generate_seasonal_params then Inl TypeError
            else
              (let n_jobs = (if n_jobs < 1 then cpu_count else n_jobs);
                   n_jobs = min n_jobs (int (length arimax_test_params))
               in if n_jobs \<le> 0 then Inl ValueError
                  else
                    (let chunks = array_split arimax_test_params (nat n_jobs);
                         items = map (\<lambda>chunk. (chunk, y_array, exog_array, trend_params,
                                                penalty_criteria)) chunks
                     in case accumulate []
                               (imap_unordered optimize_arimax_params_on_item items completion) of
                          Inl e \<Rightarrow> Inl e
                        | Inr results \<Rightarrow>
                            (case flatten_scores results of
                               Inl e \<Rightarrow> Inl e
                             | Inr test_results \<Rightarrow>
                                 select_optimal test_results arimax_test_params)))))"

section \<open>Forecast engine\<close>

text \<open>
  Elementwise subtraction of two one-dimensional arrays with numpy's broadcasting: equal
  lengths, or one side of length 1; any other pair of shapes raises ValueError.
\<close>

definition np_subtract :: "pyfloat list \<Rightarrow> pyfloat list \<Rightarrow> error + pyfloat list" where
  "np_subtract xs ys =
     (if length xs = length ys then Inr (map2 psub xs ys)
      else if length ys = 1 then Inr (map (\<lambda>x. psub x (hd ys)) xs)
      else if length xs = 1 then Inr (map (\<lambda>y. psub (hd xs) y) ys)
      else Inl ValueError)"

text \<open>The slice \<open>a[:-k]\<close> for \<open>k \<ge> 0\<close>: empty for \<open>k = 0\<close>, since \<open>-0\<close> is \<open>0\<close>.\<close>

definition slice_until_neg :: "'a list \<Rightarrow> nat \<Rightarrow> 'a list" where
  "slice_until_neg a k = (if k = 0 then [] else take (length a - k) a)"

definition calculate_forecast_prediction_interval ::
  "stats_lib \<Rightarrow> series \<Rightarrow> series \<Rightarrow> real \<Rightarrow> error + series \<times> series" where
  "calculate_forecast_prediction_interval L y_series y_forecast alpha =
     (let y_array = values_of y_series;
          forecast = values_of y_forecast
      in case np_subtract (slice_until_neg y_array (length forecast))
                (drop (length forecast) y_array) of
           Inl e \<Rightarrow> Inl e
         | Inr residuals \<Rightarrow>
             (let std_residuals = np_std residuals;
                  z = norm_ppf L (1 - alpha / 2);
                  sqrt_n = map (\<lambda>k. psqrt (Num (real k))) [1..<length forecast + 1];
                  margin = map (\<lambda>r. pmul (pmul z std_residuals) r) sqrt_n;
                  lower_bound = map2 psub forecast margin;
                  upper_bound = map2 padd forecast margin
              in Inr (pd_Series lower_bound, pd_Series upper_bound)))"

definition default_alpha :: real where
  "default_alpha = 5 / 100"

section \<open>A concrete library for examples\<close>

text \<open>
  A stand-in for the statistics library, used where an example is evaluated: the unit-root
  test accepts exactly the series shorter than four rows, the search returns its start
  point, and the smoother returns its input as the fit.
\<close>

definition example_lib :: stats_lib where
  "example_lib =
     \<lparr> adfuller = (\<lambda>vs. Inr (if length vs < 4 then Num (1 / 100) else Num (1 / 2))),
       minimize = (\<lambda>objective x0. x0),
       norm_logpdf = (\<lambda>x mu sigma. Num 0),
       norm_ppf = (\<lambda>q. Num 2),
       lowess = (\<lambda>endog exog frac it. zip (map (\<lambda>i. Num (of_int i)) exog) endog) \<rparr>"

text \<open>The same library with a unit-root test that accepts every series.\<close>

definition accepting_lib :: stats_lib where
  "accepting_lib = example_lib \<lparr> adfuller := (\<lambda>vs. Inr (Num (1 / 100))) \<rparr>"

text \<open>
  The same library with a unit-root test that, as the one of statsmodels, raises
  ValueError on a constant series, and rejects every other series.
\<close>

definition constant_series :: "pyfloat list \<Rightarrow> bool" where
  "constant_series vs = (case vs of [] \<Rightarrow> True | v # rest \<Rightarrow> list_all (\<lambda>x. x = v) rest)"

definition strict_lib :: stats_lib where
  "strict_lib =
     example_lib \<lparr> adfuller := (\<lambda>vs. if constant_series vs then Inl ValueError
                                      else Inr (Num (1 / 2))) \<rparr>"

text \<open>The series of the docstring of \<open>make_stationary\<close>: 100, 101, ..., 109.\<close>

definition docstring_trend :: series where
  "docstring_trend =
     pd_Series [Num 100, Num 101, Num 102, Num 103, Num 104, Num 105, Num 106, Num 107,
                Num 108, Num 109]"

text \<open>The series of the docstring of \<open>interpolate_stock_prices\<close>.\<close>

definition example_prices :: series where
  "example_prices =
     pd_Series [Num 100, NaN, Num 102, Num 0, Num 0, Num 103, NaN, Num 105, Num 0, Num 106,
                NaN, Num 108, Num 109]"

text \<open>The mean of log(1 + x) over the seven observed prices of that series.\<close>

definition example_log_mean :: real where
  "example_log_mean = (ln 101 + ln 103 + ln 104 + ln 106 + ln 107 + ln 109 + ln 110) / 7"

text \<open>
  Two stand-ins for the ARIMA model, its constructor always succeeding. The first fits
  every order with AIC 1234.567891. The second keeps the order as the model and scores
  (0, 0, 0) with 5 and every other order with 3.
\<close>

definition example_arima :: "unit arima_lib" where
  "example_arima =
     \<lparr> ARIMA = (\<lambda>y_array exog_array params seasonal_params trend_params. Inr ()),
       fit = (\<lambda>m. Inr \<lparr> aic = Num (1234567891 / 1000000), bic = Num 0 \<rparr>) \<rparr>"

definition scoring_arima :: "order arima_lib" where
  "scoring_arima =
     \<lparr> ARIMA = (\<lambda>y_array exog_array params seasonal_params trend_params. Inr params),
       fit = (\<lambda>m. Inr \<lparr> aic = (if m = PDQ 0 0 0 then Num 5 else Num 3), bic = Num 0 \<rparr>) \<rparr>"

text \<open>
  The worker as it would run on an unpacked item: \<open>optimize_arimax_params(*item)\<close>.
\<close>

definition optimize_arimax_params_unpacked ::
  "'m arima_lib \<Rightarrow> order list \<times> pyfloat list \<times> pyfloat list list option \<times> string option \<times> string
     \<Rightarrow> error + pyfloat list" where
  "optimize_arimax_params_unpacked A item =
     (case item of (params_chunk, y_array, exog_array, trend_params, penalty_criteria) \<Rightarrow>
        optimize_arimax_params A params_chunk y_array exog_array trend_params penalty_criteria)"


section \<open>Properties of the stationarity transform\<close>

lemma loop_step:
  "\<not> st \<Longrightarrow> i < md \<Longrightarrow>
   make_stationary_loop L d st i md =
     (case adf_test L (diff_dropna d) default_critical_val of
        Inl e \<Rightarrow> Inl e
      | Inr st' \<Rightarrow> make_stationary_loop L (diff_dropna d) st' (i + 1) md)"
  by (subst make_stationary_loop.simps) simp

lemma loop_stop:
  "st \<or> \<not> i < md \<Longrightarrow> make_stationary_loop L d st i md = Inr (d, st, i)"
  by (subst make_stationary_loop.simps) auto

lemma diff_times_Suc_shift:
  "diff_times (Suc j) d = diff_times j (diff_dropna d)"
  by (simp add: diff_times_def funpow_swap1)

text \<open>
  What the loop has done when it ends without an exception: \<open>k - i\<close> rounds of
  differencing, and the flag is the verdict of the test on the last series tested.
\<close>

lemma loop_result:
  "make_stationary_loop L d st i md = Inr (d', st', k) \<Longrightarrow>
     i \<le> k \<and> k \<le> max i md \<and> d' = diff_times (nat (k - i)) d
     \<and> (if k = i then st' = st else adf_test L d' default_critical_val = Inr st')"
proof (induction L d st i md rule: make_stationary_loop.induct)
  case (1 L d st i md)
  show ?case
  proof (cases "\<not> st \<and> i < md")
    case True
    then have ns: "\<not> st" and lt: "i < md" by simp_all
    from "1.prems" obtain st1 where t: "adf_test L (diff_dropna d) default_critical_val = Inr st1"
      and run: "make_stationary_loop L (diff_dropna d) st1 (i + 1) md = Inr (d', st', k)"
      unfolding loop_step[OF ns lt] by (auto split: sum.splits)
    note ih = "1.IH"[OF True t run]
    from ih have le: "i + 1 \<le> k" by simp
    then have n: "nat (k - i) = Suc (nat (k - (i + 1)))" by simp
    from ih have a: "d' = diff_times (nat (k - i)) d"
      by (simp only: n diff_times_Suc_shift)
    have b: "adf_test L d' default_critical_val = Inr st'"
    proof (cases "k = i + 1")
      case True
      with ih have "d' = diff_dropna d" "st' = st1" by (simp_all add: diff_times_def)
      with t show ?thesis by simp
    next
      case False
      with ih show ?thesis by auto
    qed
    from ih lt have c: "k \<le> max i md" by auto
    from le have ne: "k \<noteq> i" by simp
    from le a b c ne show ?thesis by simp
  next
    case False
    then have "st \<or> \<not> i < md" by simp
    from "1.prems"[unfolded loop_stop[OF this]] show ?thesis by (auto simp: diff_times_def)
  qed
qed

text \<open>
  When \<open>make_stationary\<close> returns, for \<open>max_diff \<ge> 0\<close>: the order is between 0 and
  \<open>max_diff\<close>, and the result is the original series with order 0, or a series
  differenced \<open>k > 0\<close> times that the test accepts, with order \<open>k\<close>.
\<close>

lemma make_stationary_returns:
  assumes "0 \<le> max_diff" and "make_stationary L y max_diff = Inr (s, k)"
  shows "0 \<le> k \<and> k \<le> max_diff
       \<and> ((s, k) = (y, 0)
            \<or> (0 < k \<and> s = diff_times (nat k) y
                \<and> adf_test L s default_critical_val = Inr True))"
proof -
  from assms(2) obtain st0 d' st' j where t0: "adf_test L y default_critical_val = Inr st0"
    and run: "make_stationary_loop L y st0 0 max_diff = Inr (d', st', j)"
    and res: "(s, k) = (if \<not> st' then (y, 0) else (d', j))"
    by (auto simp: make_stationary_def split: sum.splits prod.splits if_splits)
  from loop_result[OF run] assms(1) have j: "0 \<le> j" "j \<le> max_diff"
    and d': "d' = diff_times (nat j) y"
    and fl: "if j = 0 then st' = st0 else adf_test L d' default_critical_val = Inr st'"
    by auto
  show ?thesis
  proof (cases "st'")
    case False
    with res assms(1) show ?thesis by simp
  next
    case True
    with res have sk: "s = d'" "k = j" by simp_all
    show ?thesis
    proof (cases "j = 0")
      case True
      with sk d' assms(1) show ?thesis by (simp add: diff_times_def)
    next
      case False
      with fl \<open>st'\<close> have "adf_test L d' default_critical_val = Inr True" by simp
      with sk d' j False show ?thesis by simp
    qed
  qed
qed

lemma make_stationary_already_stationary:
  "adf_test L y default_critical_val = Inr True \<Longrightarrow> make_stationary L y max_diff = Inr (y, 0)"
  by (simp add: make_stationary_def loop_stop)

lemma loop_never_stationary:
  "\<not> st \<Longrightarrow>
   (\<forall>j. 0 < j \<and> j \<le> nat (md - i) \<longrightarrow>
        adf_test L (diff_times j d) default_critical_val = Inr False) \<Longrightarrow>
   \<exists>d' k. make_stationary_loop L d st i md = Inr (d', False, k)"
proof (induction L d st i md rule: make_stationary_loop.induct)
  case (1 L d st i md)
  show ?case
  proof (cases "i < md")
    case True
    then have one: "0 < (1::nat) \<and> 1 \<le> nat (md - i)" by simp
    have "diff_times 1 d = diff_dropna d" by (simp add: diff_times_def)
    with "1.prems"(2) one have t: "adf_test L (diff_dropna d) default_critical_val = Inr False"
      by (metis)
    have rest: "\<forall>j. 0 < j \<and> j \<le> nat (md - (i + 1)) \<longrightarrow>
        adf_test L (diff_times j (diff_dropna d)) default_critical_val = Inr False"
    proof (intro allI impI)
      fix j assume j: "0 < j \<and> j \<le> nat (md - (i + 1))"
      with True have "0 < Suc j \<and> Suc j \<le> nat (md - i)" by auto
      with "1.prems"(2) have "adf_test L (diff_times (Suc j) d) default_critical_val = Inr False"
        by blast
      then show "adf_test L (diff_times j (diff_dropna d)) default_critical_val = Inr False"
        by (simp only: diff_times_Suc_shift)
    qed
    from "1.prems"(1) True have c: "\<not> st \<and> i < md" by simp
    from "1.IH"[OF c t _ rest] obtain d' k where
      "make_stationary_loop L (diff_dropna d) False (i + 1) md = Inr (d', False, k)" by auto
    with "1.prems"(1) True t show ?thesis by (simp add: loop_step)
  next
    case False
    with "1.prems"(1) show ?thesis by (simp add: loop_stop)
  qed
qed

lemma make_stationary_never_stationary:
  assumes "\<forall>j \<le> nat max_diff. adf_test L (diff_times j y) default_critical_val = Inr False"
  shows "make_stationary L y max_diff = Inr (y, 0)"
proof -
  have "diff_times 0 y = y" by (simp add: diff_times_def)
  with assms have t0: "adf_test L y default_critical_val = Inr False" by (metis le0)
  have "\<forall>j. 0 < j \<and> j \<le> nat (max_diff - 0) \<longrightarrow>
        adf_test L (diff_times j y) default_critical_val = Inr False"
    using assms by simp
  from loop_never_stationary[OF _ this, of False] obtain d' k where
    "make_stationary_loop L y False 0 max_diff = Inr (d', False, k)" by auto
  with t0 show ?thesis by (simp add: make_stationary_def)
qed

text \<open>
  The function does not always return: the value it gives is an exception as soon as
  the unit-root test raises on the input or on the first difference that is tested.
\<close>

lemma make_stationary_raises_on_input:
  "adfuller L (values_of y) = Inl e \<Longrightarrow> make_stationary L y max_diff = Inl e"
  by (simp add: make_stationary_def adf_test_def)

lemma make_stationary_raises_on_difference:
  assumes "adf_test L y default_critical_val = Inr False" and "0 < max_diff"
    and "adfuller L (values_of (diff_dropna y)) = Inl e"
  shows "make_stationary L y max_diff = Inl e"
proof -
  have "make_stationary_loop L y False 0 max_diff = Inl e"
    using assms(2,3) by (simp add: loop_step adf_test_def)
  with assms(1) show ?thesis by (simp add: make_stationary_def)
qed

lemma docstring_trend_rows:
  "docstring_trend =
     [(0, Num 100), (1, Num 101), (2, Num 102), (3, Num 103), (4, Num 104), (5, Num 105),
      (6, Num 106), (7, Num 107), (8, Num 108), (9, Num 109)]"
  by (simp add: docstring_trend_def pd_Series_def range_index_def upt_rec)

lemma docstring_trend_difference:
  "values_of (diff_dropna docstring_trend)
     = [Num 1, Num 1, Num 1, Num 1, Num 1, Num 1, Num 1, Num 1, Num 1]"
  by (simp add: docstring_trend_rows diff_dropna_def series_diff_def dropna_def isna_def
      psub_def values_of_def)

text \<open>
  Claim C3 at the series of the docstring of \<open>make_stationary\<close>, 100, 101, ..., 109,
  with \<open>max_diff = 2\<close>. The claim says that for every input series the function returns
  a differencing order between 0 and \<open>max_diff\<close>, and the original series with order 0
  when no order reaches stationarity. On this series the test rejects the input, the
  first difference is the constant 1, the unit-root test raises ValueError on it, and
  \<open>make_stationary\<close> raises instead of returning.
\<close>

theorem make_stationary_raises_on_docstring_series:
  "make_stationary strict_lib docstring_trend 2 = Inl ValueError"
proof -
  have t0: "adf_test strict_lib docstring_trend default_critical_val = Inr False"
    by (simp add: adf_test_def strict_lib_def example_lib_def constant_series_def
        docstring_trend_rows values_of_def default_critical_val_def)
  have t1: "adfuller strict_lib (values_of (diff_dropna docstring_trend)) = Inl ValueError"
    by (simp add: docstring_trend_difference strict_lib_def example_lib_def constant_series_def)
  show ?thesis
    by (rule make_stationary_raises_on_difference[OF t0 _ t1]) simp
qed

section \<open>Facts about Series\<close>

lemma length_pd_Series: "length (pd_Series vs) = length vs"
  by (simp add: pd_Series_def range_index_def)

lemma index_of_pd_Series: "index_of (pd_Series vs) = range_index (length vs)"
  by (simp add: pd_Series_def index_of_def range_index_def)

lemma values_of_pd_Series: "values_of (pd_Series vs) = vs"
  by (simp add: pd_Series_def values_of_def range_index_def)

section \<open>The smoother\<close>

lemma smooth_lowess_valid:
  assumes "3 \<le> w" and "w \<le> int (length y)"
    and "\<not> list_ex isna (values_of y)" and "\<not> list_ex (\<lambda>v. v = Num 0) (values_of y)"
  shows "smooth_lowess L y w it =
           Inr (pd_Series (map expm1 (map snd
                  (lowess L (map log1p (values_of y)) (range_index (length y))
                     (real_of_int w / real (length y)) it))))"
  using assms by (simp add: smooth_lowess_def Let_def)

text \<open>
  Claim C7, amended. For every valid input (no NaN, no zero, window between 3 and the
  length), \<open>smooth_lowess\<close> returns a Series whose values are exp(x) - 1 of the fitted
  values that the locally weighted regression returns for the log(1 + x) of the input,
  with fraction window / length and the given number of iterations. The result carries
  a new default index 0, 1, ... over those fitted values. It has the length of the input
  when the regression returns one row per observation, and the index of the input when,
  in addition, the input has the default index.
\<close>

theorem smooth_lowess_result:
  assumes "3 \<le> w" and "w \<le> int (length y)"
    and "\<not> list_ex isna (values_of y)" and "\<not> list_ex (\<lambda>v. v = Num 0) (values_of y)"
  shows "\<exists>out rows.
           rows = lowess L (map log1p (values_of y)) (range_index (length y))
                    (real_of_int w / real (length y)) it
         \<and> smooth_lowess L y w it = Inr out
         \<and> values_of out = map expm1 (map snd rows)
         \<and> index_of out = range_index (length rows)
         \<and> length out = length rows
         \<and> (length rows = length y \<longrightarrow> length out = length y)
         \<and> (length rows = length y \<and> index_of y = range_index (length y)
              \<longrightarrow> index_of out = index_of y)"
  using smooth_lowess_valid[OF assms, of L it]
  by (simp add: length_pd_Series index_of_pd_Series values_of_pd_Series)

theorem smooth_lowess_result_witness:
  "(3::int) \<le> 3 \<and> (3::int) \<le> int (length [(0::int, Num 1), (1, Num 2), (2, Num 3)])
   \<and> \<not> list_ex isna (values_of [(0, Num 1), (1, Num 2), (2, Num 3)])
   \<and> \<not> list_ex (\<lambda>v. v = Num 0) (values_of [(0, Num 1), (1, Num 2), (2, Num 3)])
   \<and> smooth_lowess example_lib [(0, Num 1), (1, Num 2), (2, Num 3)] 3 2
        = Inr [(0, Num 1), (1, Num 2), (2, Num 3)]"
proof -
  let ?y = "[(0::int, Num 1), (1, Num 2), (2, Num 3)]"
  have a: "(3::int) \<le> 3" by simp
  have b: "(3::int) \<le> int (length ?y)" by simp
  have c: "\<not> list_ex isna (values_of ?y)" by (simp add: values_of_def isna_def)
  have d: "\<not> list_ex (\<lambda>v. v = Num 0) (values_of ?y)" by (simp add: values_of_def)
  from smooth_lowess_result[OF a b c d, of example_lib 2]
  obtain out where o: "smooth_lowess example_lib ?y 3 2 = Inr out"
    and v: "values_of out = map expm1 (map snd
              (lowess example_lib (map log1p (values_of ?y)) (range_index (length ?y))
                 (real_of_int 3 / real (length ?y)) 2))"
    and i: "index_of out = range_index (length
              (lowess example_lib (map log1p (values_of ?y)) (range_index (length ?y))
                 (real_of_int 3 / real (length ?y)) 2))"
    by blast
  have v': "map snd out = [Num 1, Num 2, Num 3]"
    using v by (simp add: values_of_def example_lib_def range_index_def)
  have i': "map fst out = [0, 1, 2]"
    using i by (simp add: index_of_def values_of_def example_lib_def range_index_def upt_rec)
  have "out = zip (map fst out) (map snd out)" by (simp add: zip_map_fst_snd)
  then have "out = [(0, Num 1), (1, Num 2), (2, Num 3)]" by (simp add: v' i')
  with o a b c d show ?thesis by simp
qed

text \<open>
  The claim as stated fails on the index: a Series labelled 5, 6, 7 comes back
  labelled 0, 1, 2.
\<close>

theorem smooth_lowess_index_counterexample:
  "smooth_lowess example_lib [(5, Num 1), (6, Num 2), (7, Num 3)] 3 2
     = Inr [(0, Num 1), (1, Num 2), (2, Num 3)]
   \<and> index_of [(0, Num 1), (1, Num 2), (2, Num 3)]
       \<noteq> index_of [(5, Num 1), (6, Num 2), (7, Num 3)]"
  by (simp add: smooth_lowess_def values_of_def isna_def example_lib_def range_index_def
      pd_Series_def index_of_def upt_rec)

text \<open>
  Claim C9. \<open>smooth_lowess\<close> raises ValueError for every series when the window is 2,
  or any window below 3; when the window exceeds the length of the series; and for every
  series that contains a NaN or a zero. A window equal to the length of the series (at
  least 3, on a series without NaN or zero) is accepted.
\<close>

theorem smooth_lowess_rejects:
  "smooth_lowess L y 2 it = Inl ValueError
   \<and> (w < 3 \<longrightarrow> smooth_lowess L y w it = Inl ValueError)
   \<and> (int (length y) < w \<longrightarrow> smooth_lowess L y w it = Inl ValueError)
   \<and> (list_ex (\<lambda>v. v = NaN \<or> v = Num 0) (values_of y)
        \<longrightarrow> smooth_lowess L y w it = Inl ValueError)
   \<and> (w = int (length y) \<and> 3 \<le> w \<and> \<not> list_ex (\<lambda>v. v = NaN \<or> v = Num 0) (values_of y)
        \<longrightarrow> (\<exists>out. smooth_lowess L y w it = Inr out))"
  by (auto simp: smooth_lowess_def Let_def isna_def list_ex_iff)

theorem smooth_lowess_rejects_witness:
  "smooth_lowess example_lib [(0, Num 1), (1, Num 2), (2, Num 3)] 2 2 = Inl ValueError
   \<and> smooth_lowess example_lib [(0, Num 1), (1, Num 2), (2, Num 3)] 4 2 = Inl ValueError
   \<and> smooth_lowess example_lib [(0, Num 1), (1, NaN), (2, Num 3)] 3 2 = Inl ValueError
   \<and> smooth_lowess example_lib [(0, Num 1), (1, Num 0), (2, Num 3)] 3 2 = Inl ValueError
   \<and> (\<exists>out. smooth_lowess example_lib [(0, Num 1), (1, Num 2), (2, Num 3)] 3 2 = Inr out)"
proof -
  let ?y = "[(0::int, Num 1), (1, Num 2), (2, Num 3)]"
  have a: "smooth_lowess example_lib ?y 2 2 = Inl ValueError"
    using smooth_lowess_rejects[of example_lib ?y 2 2] by simp
  have b: "smooth_lowess example_lib ?y 4 2 = Inl ValueError"
    using smooth_lowess_rejects[of example_lib ?y 2 4] by simp
  have c: "smooth_lowess example_lib [(0, Num 1), (1, NaN), (2, Num 3)] 3 2 = Inl ValueError"
    using smooth_lowess_rejects[of example_lib "[(0, Num 1), (1, NaN), (2, Num 3)]" 2 3]
    by (simp add: values_of_def)
  have d: "smooth_lowess example_lib [(0, Num 1), (1, Num 0), (2, Num 3)] 3 2 = Inl ValueError"
    using smooth_lowess_rejects[of example_lib "[(0, Num 1), (1, Num 0), (2, Num 3)]" 2 3]
    by (simp add: values_of_def)
  have e: "\<exists>out. smooth_lowess example_lib ?y 3 2 = Inr out"
    using smooth_lowess_rejects[of example_lib ?y 2 3] by (simp add: values_of_def)
  from a b c d e show ?thesis by blast
qed

section \<open>The estimator\<close>

text \<open>
  Claim C10. \<open>estimate_normal_params\<close> gives the same estimate for a series and for that
  series with its NaN and zero entries removed: it removes them itself, starts the search
  at the mean and standard deviation of what is left, and minimises the negative
  log-likelihood of what is left. The caller's series is as it was after the call.
\<close>

theorem estimate_normal_params_ignores_missing:
  "fst (estimate_normal_params L s)
     = fst (estimate_normal_params L (filter (\<lambda>(l, v). \<not> isna v \<and> v \<noteq> Num 0) s))
   \<and> fst (estimate_normal_params L s)
     = minimize L
         (\<lambda>params. neg_log_likelihood L params
            (values_of (filter (\<lambda>(l, v). \<not> isna v \<and> v \<noteq> Num 0) s)))
         (np_mean (values_of (filter (\<lambda>(l, v). \<not> isna v \<and> v \<noteq> Num 0) s)),
          np_std (values_of (filter (\<lambda>(l, v). \<not> isna v \<and> v \<noteq> Num 0) s)))
   \<and> snd (estimate_normal_params L s) = s"
  by (simp add: estimate_normal_params_def Let_def)

theorem estimate_normal_params_ignores_missing_witness:
  "fst (estimate_normal_params example_lib [(0, Num 1), (1, NaN), (2, Num 0), (3, Num 3)])
     = fst (estimate_normal_params example_lib [(0, Num 1), (3, Num 3)])
   \<and> fst (estimate_normal_params example_lib [(0, Num 1), (3, Num 3)]) = (Num 2, Num 1)"
proof -
  have f: "filter (\<lambda>(l, v). \<not> isna v \<and> v \<noteq> Num 0) [(0::int, Num 1), (1, NaN), (2, Num 0), (3, Num 3)]
             = [(0, Num 1), (3, Num 3)]"
    by (simp add: isna_def)
  have m: "fst (estimate_normal_params example_lib [(0, Num 1), (3, Num 3)]) = (Num 2, Num 1)"
    by (simp add: estimate_normal_params_def Let_def isna_def example_lib_def values_of_def
        np_mean_def np_std_def np_sum_def psub_def)
  from estimate_normal_params_ignores_missing[of example_lib
         "[(0, Num 1), (1, NaN), (2, Num 0), (3, Num 3)]"] f m
  show ?thesis by simp
qed

section \<open>Candidate generation\<close>

lemma pairs_product: "[(d, q). d \<leftarrow> ds, q \<leftarrow> qs] = List.product ds qs"
  by (induction ds) simp_all

lemma triples_row: "concat (map (\<lambda>d. map (\<lambda>q. (p, d, q)) qs) ds) = map (Pair p) (List.product ds qs)"
  by (induction ds) simp_all

lemma triples_product:
  "[(p, d, q). p \<leftarrow> ps, d \<leftarrow> ds, q \<leftarrow> qs] = List.product ps (List.product ds qs)"
  by (induction ps) (simp_all add: triples_row)

lemma inj_PDQ: "inj (\<lambda>(p, d, q). PDQ p d q)"
  by (auto simp: inj_on_def)

lemma py_range_Suc: "py_range (n + 1) = [0..n]"
  by (simp add: py_range_def)

lemma non_seasonal_grid:
  "distinct ds \<Longrightarrow>
   distinct (map (\<lambda>(p, d, q). PDQ p d q) [(p, d, q). p \<leftarrow> [0..max_p], d \<leftarrow> ds, q \<leftarrow> [0..max_q]])
   \<and> set (map (\<lambda>(p, d, q). PDQ p d q) [(p, d, q). p \<leftarrow> [0..max_p], d \<leftarrow> ds, q \<leftarrow> [0..max_q]])
       = {PDQ p d q | p d q. 0 \<le> p \<and> p \<le> max_p \<and> d \<in> set ds \<and> 0 \<le> q \<and> q \<le> max_q}"
proof -
  assume ds: "distinct ds"
  have "distinct (List.product [0..max_p] (List.product ds [0..max_q]))"
    using ds by (simp add: distinct_product)
  then have d: "distinct (map (\<lambda>(p, d, q). PDQ p d q) (List.product [0..max_p] (List.product ds [0..max_q])))"
    by (simp add: distinct_map inj_on_subset[OF inj_PDQ])
  have s: "set (map (\<lambda>(p, d, q). PDQ p d q) (List.product [0..max_p] (List.product ds [0..max_q])))
       = {PDQ p d q | p d q. 0 \<le> p \<and> p \<le> max_p \<and> d \<in> set ds \<and> 0 \<le> q \<and> q \<le> max_q}"
    by (auto simp: image_iff)
  from d s show ?thesis by (simp only: triples_product)
qed

text \<open>
  Claim C5. Without seasonal parameters, \<open>generate_auto_arimax_test_params\<close> returns
  the Cartesian product of p in [0, max_p], d in [0, max_d] (or the one fixed d when it
  is given) and q in [0, max_q], in row-major order and each tuple once. The call with
  max_p = 1, max_d = 0, max_q = 1 gives (0,0,0), (0,0,1), (1,0,0), (1,0,1) in that
  order. Asking for seasonal parameters without a periodicity raises ValueError.
\<close>

theorem generate_auto_arimax_test_params_grid:
  "(\<exists>xs. generate_auto_arimax_test_params max_p max_d max_q None False max_P max_D max_Q st = Inr xs
         \<and> xs = [PDQ p d q. p \<leftarrow> [0..max_p], d \<leftarrow> [0..max_d], q \<leftarrow> [0..max_q]]
         \<and> distinct xs
         \<and> set xs = {PDQ p d q | p d q.
                       0 \<le> p \<and> p \<le> max_p \<and> 0 \<le> d \<and> d \<le> max_d \<and> 0 \<le> q \<and> q \<le> max_q})
   \<and> (\<exists>xs. generate_auto_arimax_test_params max_p max_d max_q (Some d0) False max_P max_D max_Q st
             = Inr xs
         \<and> xs = [PDQ p d0 q. p \<leftarrow> [0..max_p], q \<leftarrow> [0..max_q]]
         \<and> distinct xs
         \<and> set xs = {PDQ p d0 q | p q. 0 \<le> p \<and> p \<le> max_p \<and> 0 \<le> q \<and> q \<le> max_q})
   \<and> generate_auto_arimax_test_params 1 0 1 None False max_P max_D max_Q st
       = Inr [PDQ 0 0 0, PDQ 0 0 1, PDQ 1 0 0, PDQ 1 0 1]
   \<and> generate_auto_arimax_test_params max_p max_d max_q d True max_P max_D max_Q None
       = Inl ValueError"
proof -
  have g1: "generate_auto_arimax_test_params max_p max_d max_q None False max_P max_D max_Q st
      = Inr (map (\<lambda>(p, d, q). PDQ p d q)
               [(p, d, q). p \<leftarrow> [0..max_p], d \<leftarrow> [0..max_d], q \<leftarrow> [0..max_q]])"
    by (simp add: generate_auto_arimax_test_params_def py_range_Suc)
  have g2: "generate_auto_arimax_test_params max_p max_d max_q (Some d0) False max_P max_D max_Q st
      = Inr (map (\<lambda>(p, d, q). PDQ p d q)
               [(p, d, q). p \<leftarrow> [0..max_p], d \<leftarrow> [d0], q \<leftarrow> [0..max_q]])"
    by (simp add: generate_auto_arimax_test_params_def py_range_Suc)
  have e1: "map (\<lambda>(p, d, q). PDQ p d q)
               [(p, d, q). p \<leftarrow> [0..max_p], d \<leftarrow> [0..max_d], q \<leftarrow> [0..max_q]]
            = [PDQ p d q. p \<leftarrow> [0..max_p], d \<leftarrow> [0..max_d], q \<leftarrow> [0..max_q]]"
    by (simp add: map_concat comp_def)
  have e2: "map (\<lambda>(p, d, q). PDQ p d q)
               [(p, d, q). p \<leftarrow> [0..max_p], d \<leftarrow> [d0], q \<leftarrow> [0..max_q]]
            = [PDQ p d0 q. p \<leftarrow> [0..max_p], q \<leftarrow> [0..max_q]]"
    by (simp add: map_concat comp_def)
  have c1: "\<exists>xs. generate_auto_arimax_test_params max_p max_d max_q None False max_P max_D max_Q st = Inr xs
         \<and> xs = [PDQ p d q. p \<leftarrow> [0..max_p], d \<leftarrow> [0..max_d], q \<leftarrow> [0..max_q]]
         \<and> distinct xs
         \<and> set xs = {PDQ p d q | p d q.
                       0 \<le> p \<and> p \<le> max_p \<and> 0 \<le> d \<and> d \<le> max_d \<and> 0 \<le> q \<and> q \<le> max_q}"
  proof -
    have "distinct [0..max_d]" by simp
    from non_seasonal_grid[OF this, where max_p = max_p and max_q = max_q]
    show ?thesis unfolding g1 e1 by simp
  qed
  have c2: "\<exists>xs. generate_auto_arimax_test_params max_p max_d max_q (Some d0) False max_P max_D max_Q st
             = Inr xs
         \<and> xs = [PDQ p d0 q. p \<leftarrow> [0..max_p], q \<leftarrow> [0..max_q]]
         \<and> distinct xs
         \<and> set xs = {PDQ p d0 q | p q. 0 \<le> p \<and> p \<le> max_p \<and> 0 \<le> q \<and> q \<le> max_q}"
  proof -
    have "distinct [d0]" by simp
    from non_seasonal_grid[OF this, where max_p = max_p and max_q = max_q]
    show ?thesis unfolding g2 e2 by simp
  qed
  have c3: "generate_auto_arimax_test_params 1 0 1 None False max_P max_D max_Q st
       = Inr [PDQ 0 0 0, PDQ 0 0 1, PDQ 1 0 0, PDQ 1 0 1]"
    by (simp add: generate_auto_arimax_test_params_def py_range_def upto.simps)
  have c4: "generate_auto_arimax_test_params max_p max_d max_q d True max_P max_D max_Q None
       = Inl ValueError"
    by (simp add: generate_auto_arimax_test_params_def)
  from c1 c2 c3 c4 show ?thesis by blast
qed

theorem generate_auto_arimax_test_params_grid_witness:
  "generate_auto_arimax_test_params 1 0 1 None False 2 1 2 None
       = Inr [PDQ 0 0 0, PDQ 0 0 1, PDQ 1 0 0, PDQ 1 0 1]
   \<and> generate_auto_arimax_test_params 4 2 4 None True 2 1 2 None = Inl ValueError"
  using generate_auto_arimax_test_params_grid[where max_p = 4 and max_d = 2 and max_q = 4
      and max_P = 2 and max_D = 1 and max_Q = 2 and st = None and d = None]
  by simp

section \<open>The forecast prediction interval\<close>

lemma map2_shift:
  "map2 psub (take (length ys - k) ys) (drop k ys)
     = map (\<lambda>j. psub (ys ! j) (ys ! (j + k))) [0..<length ys - k]"
  by (rule nth_equalityI) (simp_all add: add.commute)

lemma residuals_shifted:
  assumes "0 < k"
  shows "np_subtract (slice_until_neg ys k) (drop k ys)
           = Inr (map (\<lambda>j. psub (ys ! j) (ys ! (j + k))) [0..<length ys - k])"
  using assms by (simp add: np_subtract_def slice_until_neg_def map2_shift)

lemma shifted_values:
  "map (\<lambda>j. psub (values_of s ! j) (values_of s ! (j + k))) [0..<length (values_of s) - k]
     = map (\<lambda>j. psub (snd (s ! j)) (snd (s ! (j + k)))) [0..<length s - k]"
  by (rule nth_equalityI) (simp_all add: values_of_def)

lemma snd_pd_Series_nth: "k < length vs \<Longrightarrow> snd (pd_Series vs ! k) = vs ! k"
  by (simp add: pd_Series_def range_index_def)

lemma margin_nth:
  "k < n \<Longrightarrow>
   map (\<lambda>r. pmul c r) (map (\<lambda>k. psqrt (Num (real k))) [1..<n + 1]) ! k
     = pmul c (psqrt (Num (real (k + 1))))"
  by (simp add: nth_upt del: upt_Suc)

text \<open>
  Claim C6. For a forecast of at least one step, \<open>calculate_forecast_prediction_interval\<close>
  takes as residuals the elementwise difference of the slices \<open>y[:-len(forecast)]\<close> and
  \<open>y[len(forecast):]\<close> of the historical series, that is \<open>y[j] - y[j + len(forecast)]\<close>,
  takes their standard deviation, and returns the bounds
  forecast - z * std * sqrt(k) and forecast + z * std * sqrt(k) for the step-ahead index
  k = 1, ..., len(forecast), where z is the normal quantile at 1 - alpha / 2.
\<close>

theorem forecast_prediction_interval_formula:
  assumes "y_forecast \<noteq> []"
  shows "\<exists>lower upper residuals.
           residuals = map (\<lambda>j. psub (snd (y_series ! j)) (snd (y_series ! (j + length y_forecast))))
                         [0..<length y_series - length y_forecast]
         \<and> calculate_forecast_prediction_interval L y_series y_forecast alpha = Inr (lower, upper)
         \<and> length lower = length y_forecast \<and> length upper = length y_forecast
         \<and> index_of lower = range_index (length y_forecast)
         \<and> index_of upper = range_index (length y_forecast)
         \<and> (\<forall>k < length y_forecast.
               snd (lower ! k) = psub (snd (y_forecast ! k))
                   (pmul (pmul (norm_ppf L (1 - alpha / 2)) (np_std residuals))
                      (psqrt (Num (real (k + 1)))))
             \<and> snd (upper ! k) = padd (snd (y_forecast ! k))
                   (pmul (pmul (norm_ppf L (1 - alpha / 2)) (np_std residuals))
                      (psqrt (Num (real (k + 1))))))"
proof -
  let ?vf = "values_of y_forecast"
  let ?n = "length ?vf"
  let ?res = "map (\<lambda>j. psub (snd (y_series ! j)) (snd (y_series ! (j + ?n))))
                [0..<length y_series - ?n]"
  let ?c = "pmul (norm_ppf L (1 - alpha / 2)) (np_std ?res)"
  let ?m = "map (\<lambda>r. pmul ?c r) (map (\<lambda>k. psqrt (Num (real k))) [1..<?n + 1])"
  let ?lo = "pd_Series (map2 psub ?vf ?m)"
  let ?up = "pd_Series (map2 padd ?vf ?m)"
  have n: "?n = length y_forecast" by (simp add: values_of_def)
  from assms have pos: "0 < ?n" by (simp add: values_of_def)
  have r: "np_subtract (slice_until_neg (values_of y_series) ?n) (drop ?n (values_of y_series))
             = Inr ?res"
    by (simp only: residuals_shifted[OF pos] shifted_values)
  have run: "calculate_forecast_prediction_interval L y_series y_forecast alpha = Inr (?lo, ?up)"
    by (simp only: calculate_forecast_prediction_interval_def Let_def r sum.case)
  have lm: "length ?m = ?n" by (simp del: upt_Suc)
  have len: "length ?lo = ?n \<and> length ?up = ?n"
    by (simp add: length_pd_Series del: upt_Suc)
  have idx: "index_of ?lo = range_index ?n \<and> index_of ?up = range_index ?n"
    by (simp add: index_of_pd_Series del: upt_Suc)
  have pt: "\<forall>k < ?n.
               snd (?lo ! k) = psub (snd (y_forecast ! k)) (pmul ?c (psqrt (Num (real (k + 1)))))
             \<and> snd (?up ! k) = padd (snd (y_forecast ! k)) (pmul ?c (psqrt (Num (real (k + 1)))))"
  proof (intro allI impI)
    fix k assume k: "k < ?n"
    have vk: "?vf ! k = snd (y_forecast ! k)" using k by (simp add: values_of_def)
    have mk: "?m ! k = pmul ?c (psqrt (Num (real (k + 1))))" by (rule margin_nth[OF k])
    have l2: "length (map2 psub ?vf ?m) = ?n" "length (map2 padd ?vf ?m) = ?n"
      by (simp_all del: upt_Suc)
    have a: "snd (?lo ! k) = psub (?vf ! k) (?m ! k)"
      using k lm by (simp only: snd_pd_Series_nth l2) simp
    have b: "snd (?up ! k) = padd (?vf ! k) (?m ! k)"
      using k lm by (simp only: snd_pd_Series_nth l2) simp
    from a b show "snd (?lo ! k) = psub (snd (y_forecast ! k)) (pmul ?c (psqrt (Num (real (k + 1)))))
             \<and> snd (?up ! k) = padd (snd (y_forecast ! k)) (pmul ?c (psqrt (Num (real (k + 1)))))"
      by (simp only: vk mk)
  qed
  from run len idx pt show ?thesis unfolding n by blast
qed

theorem forecast_prediction_interval_formula_witness:
  "[(0::int, Num 10), (1, Num 20)] \<noteq> []
   \<and> calculate_forecast_prediction_interval example_lib
        [(0, Num 1), (1, Num 2), (2, Num 4), (3, Num 7)] [(0, Num 10), (1, Num 20)] default_alpha
      = Inr ([(0, Num 8), (1, Num (20 - 2 * sqrt 2))], [(0, Num 12), (1, Num (20 + 2 * sqrt 2))])"
proof -
  let ?y = "[(0::int, Num 1), (1, Num 2), (2, Num 4), (3, Num 7)]"
  let ?f = "[(0::int, Num 10), (1, Num 20)]"
  have ne: "?f \<noteq> []" by simp
  have sd: "np_std [Num (- 3), Num (- 5)] = Num 1"
    by (simp add: np_std_def np_mean_def np_sum_def psub_def)
  from forecast_prediction_interval_formula[OF ne, of ?y example_lib default_alpha]
  obtain lower upper where run:
      "calculate_forecast_prediction_interval example_lib ?y ?f default_alpha = Inr (lower, upper)"
    and lo0: "snd (lower ! 0) = psub (snd (?f ! 0))
                   (pmul (pmul (norm_ppf example_lib (1 - default_alpha / 2))
                      (np_std (map (\<lambda>j. psub (snd (?y ! j)) (snd (?y ! (j + length ?f))))
                                 [0..<length ?y - length ?f])))
                      (psqrt (Num (real (0 + 1)))))"
    by force
  have res: "map (\<lambda>j. psub (snd (?y ! j)) (snd (?y ! (j + length ?f)))) [0..<length ?y - length ?f]
               = [Num (- 3), Num (- 5)]"
    by (simp add: psub_def upt_rec)
  from lo0 have first: "snd (lower ! 0) = Num 8"
    unfolding res sd by (simp add: example_lib_def psub_def)
  have direct: "calculate_forecast_prediction_interval example_lib ?y ?f default_alpha
      = Inr ([(0, Num 8), (1, Num (20 - 2 * sqrt 2))], [(0, Num 12), (1, Num (20 + 2 * sqrt 2))])"
    by (simp add: calculate_forecast_prediction_interval_def Let_def values_of_def
        np_subtract_def slice_until_neg_def psub_def sd example_lib_def pd_Series_def
        range_index_def upt_rec)
  from run direct first ne show ?thesis by simp
qed

section \<open>The missing-data pipeline\<close>

lemma length_cumsum_acc: "length (cumsum_acc a xs) = length xs"
  by (induction xs arbitrary: a) simp_all

lemma length_np_cumsum: "length (np_cumsum xs) = length xs"
  by (cases xs) (simp_all add: np_cumsum_def length_cumsum_acc)

lemma length_np_cumsum_funpow: "length ((np_cumsum ^^ k) xs) = length xs"
  by (induction k) (simp_all add: length_np_cumsum)

lemma length_zeros_to_nan: "length (zeros_to_nan y) = length y"
  by (simp add: zeros_to_nan_def)

lemma length_series_filled:
  "interpolate_series_filled L y lt anv = Inr filled \<Longrightarrow> length filled = length y"
  by (auto simp: interpolate_series_filled_def Let_def values_of_def where_notna_def
        length_np_cumsum_funpow length_zeros_to_nan split: if_splits prod.splits sum.splits)

lemma lookup_pd_Series:
  "lookup (pd_Series vs) (int i) = (if i < length vs then vs ! i else NaN)"
proof (cases "i < length vs")
  case True
  have d: "distinct (range_index (length vs))"
    by (simp add: range_index_def distinct_map inj_on_def)
  have l: "length (range_index (length vs)) = length vs" by (simp add: range_index_def)
  have "map_of (zip (range_index (length vs)) vs) (range_index (length vs) ! i) = Some (vs ! i)"
    by (rule map_of_zip_nth[OF l d True])
  moreover have "range_index (length vs) ! i = int i" using True by (simp add: range_index_def)
  ultimately show ?thesis using True by (simp add: lookup_def pd_Series_def)
next
  case False
  then have "int i \<notin> set (range_index (length vs))" by (auto simp: range_index_def)
  then have "map_of (zip (range_index (length vs)) vs) (int i) = None"
    by (simp add: map_of_zip_is_None range_index_def)
  with False show ?thesis by (simp add: lookup_def pd_Series_def)
qed

lemma smooth_lowess_Inr:
  assumes "smooth_lowess L y w it = Inr sm"
  shows "3 \<le> w \<and> w \<le> int (length y)
       \<and> sm = pd_Series (map expm1 (map snd
                 (lowess L (map log1p (values_of y)) (range_index (length y))
                    (real_of_int w / real (length y)) it)))"
  using assms by (auto simp: smooth_lowess_def Let_def split: if_splits)

lemma expm1_not_nan: "expm1 v \<noteq> NaN \<longleftrightarrow> v \<noteq> NaN"
  by (cases v) simp_all

lemma expm1_not_zero: "expm1 v \<noteq> Num 0 \<longleftrightarrow> v \<noteq> Num 0"
  by (cases v) simp_all

lemma lookup_pd_Series_outside:
  assumes "l < 0 \<or> int (length vs) \<le> l"
  shows "lookup (pd_Series vs) l = NaN"
proof -
  from assms have "l \<notin> set (range_index (length vs))" by (auto simp: range_index_def)
  then have "map_of (zip (range_index (length vs)) vs) l = None"
    by (simp add: map_of_zip_is_None range_index_def)
  then show ?thesis by (simp add: lookup_def pd_Series_def)
qed

text \<open>
  A series of fewer than four rows never comes back: the unit-root test raises, or the
  smoother, called with window 4, rejects the window.
\<close>

lemma interpolate_short:
  assumes "length y < 4"
  shows "interpolate_stock_prices L y lt anv \<noteq> Inr out"
proof (cases "interpolate_series_filled L y lt anv")
  case (Inl e)
  then show ?thesis by (simp add: interpolate_stock_prices_def)
next
  case (Inr filled)
  from length_series_filled[OF Inr] assms have "length (pd_Series filled) < 4"
    by (simp add: length_pd_Series)
  then have "smooth_lowess L (pd_Series filled) 4 3 = Inl ValueError"
    by (simp add: smooth_lowess_def)
  with Inr show ?thesis by (simp add: interpolate_stock_prices_def)
qed

text \<open>
  What the function returns, when it returns, row by row: an observed value is kept, and
  a missing row takes the value that the smoothed series has \<^emph>\<open>at the label of that row\<close>.
  The smoothed series is labelled 0, 1, ... whatever the labels of the input are.
\<close>

lemma interpolate_rows:
  assumes ret: "interpolate_stock_prices L y lt anv = Inr out"
  shows "\<exists>filled rows.
       interpolate_series_filled L y lt anv = Inr filled \<and> length filled = length y
     \<and> rows = lowess L (map log1p filled) (range_index (length y)) (4 / real (length y)) 3
     \<and> 4 \<le> length y
     \<and> length out = length y \<and> index_of out = index_of y
     \<and> (\<forall>i < length y.
           snd (out ! i) =
             (if snd (y ! i) = NaN \<or> snd (y ! i) = Num 0
              then lookup (pd_Series (map expm1 (map snd rows))) (fst (y ! i))
              else snd (y ! i)))"
proof -
  from ret obtain filled sm where f: "interpolate_series_filled L y lt anv = Inr filled"
    and sm: "smooth_lowess L (pd_Series filled) 4 3 = Inr sm"
    and out: "out = fillna (zeros_to_nan y) sm"
    by (auto simp: interpolate_stock_prices_def Let_def split: sum.splits)
  have lf: "length filled = length y" by (rule length_series_filled[OF f])
  define rows where
    "rows = lowess L (map log1p filled) (range_index (length y)) (4 / real (length y)) 3"
  from smooth_lowess_Inr[OF sm] have four: "4 \<le> length y"
    and smv: "sm = pd_Series (map expm1 (map snd rows))"
    by (simp_all add: length_pd_Series values_of_pd_Series lf rows_def)
  have lo: "length out = length y" by (simp add: out fillna_def zeros_to_nan_def)
  have io: "index_of out = index_of y"
    by (simp add: out fillna_def zeros_to_nan_def index_of_def case_prod_unfold comp_def)
  have outi: "\<forall>i < length y.
           snd (out ! i) =
             (if snd (y ! i) = NaN \<or> snd (y ! i) = Num 0
              then lookup (pd_Series (map expm1 (map snd rows))) (fst (y ! i))
              else snd (y ! i))"
  proof (intro allI impI)
    fix i assume i: "i < length y"
    obtain l v where yi: "y ! i = (l, v)" by (cases "y ! i")
    show "snd (out ! i) =
             (if snd (y ! i) = NaN \<or> snd (y ! i) = Num 0
              then lookup (pd_Series (map expm1 (map snd rows))) (fst (y ! i))
              else snd (y ! i))"
      using i by (simp add: out fillna_def zeros_to_nan_def yi isna_def smv)
  qed
  from f lf four lo io outi show ?thesis unfolding rows_def by blast
qed

text \<open>
  On the default index the label of row \<open>i\<close> is \<open>i\<close>, and a missing row takes exp(x) - 1
  of the smoother's fitted value for that row.
\<close>

lemma interpolate_default_index:
  assumes idx: "index_of y = range_index (length y)"
    and ret: "interpolate_stock_prices L y lt anv = Inr out"
    and i: "i < length y"
  shows "\<exists>filled rows.
       interpolate_series_filled L y lt anv = Inr filled
     \<and> rows = lowess L (map log1p filled) (range_index (length y)) (4 / real (length y)) 3
     \<and> snd (out ! i) =
         (if snd (y ! i) = NaN \<or> snd (y ! i) = Num 0
          then (if i < length rows then expm1 (snd (rows ! i)) else NaN)
          else snd (y ! i))"
proof -
  from idx have "map fst y ! i = range_index (length y) ! i" by (simp add: index_of_def)
  with i have lab: "fst (y ! i) = int i" by (simp add: range_index_def)
  from interpolate_rows[OF ret] i obtain filled where
    f: "interpolate_series_filled L y lt anv = Inr filled"
    and o: "snd (out ! i) =
             (if snd (y ! i) = NaN \<or> snd (y ! i) = Num 0
              then lookup (pd_Series (map expm1 (map snd
                     (lowess L (map log1p filled) (range_index (length y))
                        (4 / real (length y)) 3)))) (fst (y ! i))
              else snd (y ! i))"
    by blast
  from f o show ?thesis by (simp add: lab lookup_pd_Series)
qed

text \<open>
  On any other index a missing row whose label is not among 0, ..., m - 1, for the
  \<open>m\<close> rows of the smoother, finds no smoothed value and stays NaN.
\<close>

lemma interpolate_label_outside:
  assumes ret: "interpolate_stock_prices L y lt anv = Inr out"
    and i: "i < length y"
    and missing: "snd (y ! i) = NaN \<or> snd (y ! i) = Num 0"
    and rows: "\<And>endog exog frac it. length (lowess L endog exog frac it) \<le> length endog"
    and outside: "fst (y ! i) < 0 \<or> int (length y) \<le> fst (y ! i)"
  shows "snd (out ! i) = NaN"
proof -
  from interpolate_rows[OF ret] i missing obtain filled where
    lf: "length filled = length y"
    and o: "snd (out ! i) =
              lookup (pd_Series (map expm1 (map snd
                     (lowess L (map log1p filled) (range_index (length y))
                        (4 / real (length y)) 3)))) (fst (y ! i))"
    by auto
  have "length (lowess L (map log1p filled) (range_index (length y)) (4 / real (length y)) 3)
          \<le> length y"
    using rows[of "map log1p filled"] lf by simp
  with outside have "fst (y ! i) < 0 \<or> int (length (map expm1 (map snd
                     (lowess L (map log1p filled) (range_index (length y))
                        (4 / real (length y)) 3)))) \<le> fst (y ! i)"
    by auto
  from lookup_pd_Series_outside[OF this] o show ?thesis by simp
qed

lemma example_prices_rows:
  "example_prices =
     [(0, Num 100), (1, NaN), (2, Num 102), (3, Num 0), (4, Num 0), (5, Num 103), (6, NaN),
      (7, Num 105), (8, Num 0), (9, Num 106), (10, NaN), (11, Num 108), (12, Num 109)]"
  by (simp add: example_prices_def pd_Series_def range_index_def upt_rec)

lemma make_stationary_accepting: "make_stationary accepting_lib s 2 = Inr (s, 0)"
  by (simp add: make_stationary_def adf_test_def accepting_lib_def example_lib_def
      default_critical_val_def loop_stop)

lemma example_log_mean_pos: "0 < example_log_mean"
proof -
  have "0 < ln (101::real)" "0 < ln (103::real)" "0 < ln (104::real)" "0 < ln (106::real)"
    "0 < ln (107::real)" "0 < ln (109::real)" "0 < ln (110::real)"
    by simp_all
  then have "0 < ln (101::real) + ln 103 + ln 104 + ln 106 + ln 107 + ln 109 + ln 110"
    by (intro add_pos_pos)
  then show ?thesis unfolding example_log_mean_def by (simp only: zero_less_divide_iff) simp
qed

lemma example_estimate:
  "fst (fst (estimate_normal_params accepting_lib
          [(0, Num (ln 101)), (2, Num (ln 103)), (5, Num (ln 104)), (7, Num (ln 106)),
           (9, Num (ln 107)), (11, Num (ln 109)), (12, Num (ln 110))])) = Num example_log_mean"
proof -
  have nz: "ln (101::real) \<noteq> 0" "ln (103::real) \<noteq> 0" "ln (104::real) \<noteq> 0" "ln (106::real) \<noteq> 0"
    "ln (107::real) \<noteq> 0" "ln (109::real) \<noteq> 0" "ln (110::real) \<noteq> 0"
    by simp_all
  show ?thesis
    by (simp add: estimate_normal_params_def Let_def isna_def nz accepting_lib_def example_lib_def
        values_of_def np_mean_def np_sum_def example_log_mean_def)
qed

lemma example_series_filled:
  "interpolate_series_filled accepting_lib example_prices True False =
     Inr (map (\<lambda>x. Num (exp x - 1))
       [100, example_log_mean, 102, example_log_mean, example_log_mean, 103, example_log_mean,
        105, example_log_mean, 106, example_log_mean, 108, 109])"
proof -
  obtain mu sigma where e: "fst (estimate_normal_params accepting_lib
          [(0, Num (ln 101)), (2, Num (ln 103)), (5, Num (ln 104)), (7, Num (ln 106)),
           (9, Num (ln 107)), (11, Num (ln 109)), (12, Num (ln 110))]) = (mu, sigma)"
    by (cases "fst (estimate_normal_params accepting_lib
          [(0, Num (ln 101)), (2, Num (ln 103)), (5, Num (ln 104)), (7, Num (ln 106)),
           (9, Num (ln 107)), (11, Num (ln 109)), (12, Num (ln 110))])")
  with example_estimate have mu: "mu = Num example_log_mean" by simp
  show ?thesis
    by (simp add: interpolate_series_filled_def example_prices_rows Let_def isna_def
        zeros_to_nan_def make_stationary_accepting e mu values_of_def where_notna_def lookup_def)
qed

lemma example_interpolated:
  "interpolate_stock_prices accepting_lib example_prices True False =
     Inr (pd_Series (map (\<lambda>x. Num x)
       [100, exp example_log_mean - 1, 102, exp example_log_mean - 1, exp example_log_mean - 1,
        103, exp example_log_mean - 1, 105, exp example_log_mean - 1, 106,
        exp example_log_mean - 1, 108, 109]))"
proof -
  have nz: "example_log_mean \<noteq> 0" using example_log_mean_pos by simp
  have sm: "smooth_lowess accepting_lib (pd_Series (map (\<lambda>x. Num (exp x - 1))
       [100, example_log_mean, 102, example_log_mean, example_log_mean, 103, example_log_mean,
        105, example_log_mean, 106, example_log_mean, 108, 109])) 4 3
     = Inr (pd_Series (map (\<lambda>x. Num (exp x - 1))
       [100, example_log_mean, 102, example_log_mean, example_log_mean, 103, example_log_mean,
        105, example_log_mean, 106, example_log_mean, 108, 109]))"
    by (simp add: smooth_lowess_def length_pd_Series values_of_pd_Series isna_def nz Let_def
        accepting_lib_def example_lib_def range_index_def)
  show ?thesis
    unfolding interpolate_stock_prices_def example_series_filled Let_def sum.case sm
    by (simp add: example_prices_rows zeros_to_nan_def fillna_def isna_def pd_Series_def
        range_index_def upt_rec lookup_def)
qed

lemma labelled_estimate:
  "fst (fst (estimate_normal_params accepting_lib
          [(10, Num (ln 101)), (12, Num (ln 103)), (13, Num (ln 104)), (14, Num (ln 105))]))
     = Num ((ln 101 + ln 103 + ln 104 + ln 105) / 4)"
proof -
  have nz: "ln (101::real) \<noteq> 0" "ln (103::real) \<noteq> 0" "ln (104::real) \<noteq> 0" "ln (105::real) \<noteq> 0"
    by simp_all
  show ?thesis
    by (simp add: estimate_normal_params_def Let_def isna_def nz accepting_lib_def example_lib_def
        values_of_def np_mean_def np_sum_def)
qed

lemma labelled_mean_pos: "0 < (ln 101 + ln 103 + ln 104 + ln (105::real)) / 4"
proof -
  have "0 < ln (101::real)" "0 < ln (103::real)" "0 < ln (104::real)" "0 < ln (105::real)"
    by simp_all
  then have "0 < ln (101::real) + ln 103 + ln 104 + ln 105"
    by (intro add_pos_pos)
  then show ?thesis by (simp only: zero_less_divide_iff) simp
qed

text \<open>
  Claim C1 at a series whose index is not the default one: five rows labelled
  10, ..., 14, the second one missing. The claim says that no position that was missing
  is still NaN or zero in the result. The call returns, with the observed values
  unchanged, but the smoothed values are labelled 0, ..., 4 and \<open>fillna\<close> finds none of
  them at label 11: the missing position is still NaN.
\<close>

theorem interpolate_stock_prices_leaves_missing_row:
  "interpolate_stock_prices accepting_lib
     [(10, Num 100), (11, NaN), (12, Num 102), (13, Num 103), (14, Num 104)] True False
   = Inr [(10, Num 100), (11, NaN), (12, Num 102), (13, Num 103), (14, Num 104)]"
proof -
  let ?m = "(ln 101 + ln 103 + ln 104 + ln (105::real)) / 4"
  let ?y = "[(10::int, Num 100), (11, NaN), (12, Num 102), (13, Num 103), (14, Num 104)]"
  let ?filled = "map (\<lambda>x. Num (exp x - 1)) [100, ?m, 102, 103, 104]"
  obtain mu sigma where e: "fst (estimate_normal_params accepting_lib
          [(10, Num (ln 101)), (12, Num (ln 103)), (13, Num (ln 104)), (14, Num (ln 105))])
        = (mu, sigma)"
    by (cases "fst (estimate_normal_params accepting_lib
          [(10, Num (ln 101)), (12, Num (ln 103)), (13, Num (ln 104)), (14, Num (ln 105))])")
  with labelled_estimate have mu: "mu = Num ?m" by simp
  have f: "interpolate_series_filled accepting_lib ?y True False = Inr ?filled"
    by (simp add: interpolate_series_filled_def Let_def isna_def
        zeros_to_nan_def make_stationary_accepting e mu values_of_def where_notna_def lookup_def)
  have nz: "?m \<noteq> 0" using labelled_mean_pos by simp
  have sm: "smooth_lowess accepting_lib (pd_Series ?filled) 4 3 = Inr (pd_Series ?filled)"
    using nz
    by (simp add: smooth_lowess_def length_pd_Series values_of_pd_Series isna_def Let_def
        accepting_lib_def example_lib_def range_index_def)
  show ?thesis
    unfolding interpolate_stock_prices_def f Let_def sum.case sm
    by (simp add: zeros_to_nan_def fillna_def isna_def pd_Series_def
        range_index_def upt_rec lookup_def)
qed

section \<open>Reverse differencing in the pipeline\<close>

lemma example_lib_differences_once:
  "make_stationary example_lib [(0, Num 1), (1, Num 2), (2, Num 4), (3, Num 8)] 2
     = Inr ([(1, Num 1), (2, Num 2), (3, Num 4)], 1)"
proof -
  have d: "diff_dropna [(0, Num 1), (1, Num 2), (2, Num 4), (3, Num 8)]
             = [(1, Num 1), (2, Num 2), (3, Num 4)]"
    by (simp add: diff_dropna_def series_diff_def dropna_def isna_def psub_def)
  have t0: "adf_test example_lib [(0, Num 1), (1, Num 2), (2, Num 4), (3, Num 8)]
              default_critical_val = Inr False"
    by (simp add: adf_test_def example_lib_def values_of_def default_critical_val_def)
  have t1: "adf_test example_lib [(1, Num 1), (2, Num 2), (3, Num 4)] default_critical_val
              = Inr True"
    by (simp add: adf_test_def example_lib_def values_of_def default_critical_val_def)
  have "make_stationary_loop example_lib [(0, Num 1), (1, Num 2), (2, Num 4), (3, Num 8)]
          False 0 2 = Inr ([(1, Num 1), (2, Num 2), (3, Num 4)], True, 1)"
    by (simp add: loop_step d t1 loop_stop)
  with t0 show ?thesis by (simp add: make_stationary_def)
qed

text \<open>
  The reverse differencing of \<open>interpolate_stock_prices\<close> is \<open>np.cumsum\<close> with no
  leading value, applied to the filled series. On 1, 2, 4, 8, which \<open>make_stationary\<close>
  differences once with the example library, the series after it is 1, 3, 7, 15.
\<close>

lemma reverse_differencing_plain:
  "interpolate_series_filled example_lib [(0, Num 1), (1, Num 2), (2, Num 4), (3, Num 8)]
       False False
     = Inr [Num 1, Num 3, Num 7, Num 15]"
proof -
  obtain mu sigma where e:
    "fst (estimate_normal_params example_lib [(1, Num 1), (2, Num 2), (3, Num 4)]) = (mu, sigma)"
    by (cases "fst (estimate_normal_params example_lib [(1, Num 1), (2, Num 2), (3, Num 4)])")
  show ?thesis
    by (simp add: interpolate_series_filled_def Let_def isna_def zeros_to_nan_def
        example_lib_differences_once e values_of_def where_notna_def np_cumsum_def)
qed




section \<open>Fitness evaluation\<close>

text \<open>
  When the configuration is accepted and the model is constructed, a fit that raises
  gives the score +inf, and a fit that succeeds gives the chosen criterion rounded by
  \<open>round(x, 5)\<close>.
\<close>

lemma check_generated_arimax_params_sentinel:
  assumes "\<not> (exog_array = None \<and> trend_params \<noteq> None)"
    and "ARIMA A y_array exog_array params seasonal_params trend_params = Inr m"
    and "fit A m = Inl e"
  shows "check_generated_arimax_params A y_array params exog_array trend_params seasonal_params
           penalty_criteria = Inr PInf"
  using assms by (auto simp: check_generated_arimax_params_def)

lemma check_generated_arimax_params_rounds:
  assumes "\<not> (exog_array = None \<and> trend_params \<noteq> None)"
    and "ARIMA A y_array exog_array params seasonal_params trend_params = Inr m"
    and "fit A m = Inr r"
  shows "check_generated_arimax_params A y_array params exog_array trend_params seasonal_params
           ''AIC'' = Inr (py_round (aic r) 5)
       \<and> check_generated_arimax_params A y_array params exog_array trend_params seasonal_params
           ''BIC'' = Inr (py_round (bic r) 5)"
  using assms by (auto simp: check_generated_arimax_params_def)

lemma round_half_even_example: "round_half_even (1234567891 / 10) = 123456789"
proof -
  have f: "\<lfloor>(1234567891::real) / 10\<rfloor> = 123456789"
    by (rule floor_unique) simp_all
  show ?thesis by (simp add: round_half_even_def f Let_def)
qed

text \<open>
  Claim C4 at a concrete fit. With an AIC of 1234.567891 the evaluator returns
  1234.56789: \<open>round(x, 5)\<close> keeps five decimal places. Rounded to five significant
  digits, as the claim and the docstring of the function say, the value would be 1234.6.
\<close>

theorem check_generated_arimax_params_decimal_places:
  "check_generated_arimax_params example_arima [Num 1, Num 2, Num 3] (PDQ 1 1 1) None None None
     ''AIC'' = Inr (Num (123456789 / 100000))
   \<and> Num (123456789 / 100000) \<noteq> Num (12346 / 10)"
  by (simp add: check_generated_arimax_params_def example_arima_def round_half_even_example)

section \<open>Collecting and selecting\<close>

lemma accumulate_all_TypeError:
  "accumulate results (map (\<lambda>j. Inl TypeError) js)
     = (if js = [] then Inr results else Inl TypeError)"
  by (cases js) simp_all

lemma select_optimal_empty: "select_optimal [] ps = Inl ValueError"
  by (simp add: select_optimal_def)

lemma collect_never_returns:
  "(case accumulate [] (imap_unordered optimize_arimax_params_on_item items completion) of
      Inl e \<Rightarrow> Inl e
    | Inr results \<Rightarrow>
        (case flatten_scores results of
           Inl e \<Rightarrow> Inl e
         | Inr test_results \<Rightarrow> select_optimal test_results ps)) \<noteq> Inr x"
proof -
  let ?js = "filter (\<lambda>j. j < length items) completion"
  have m: "imap_unordered optimize_arimax_params_on_item items completion
             = map (\<lambda>j. Inl TypeError) ?js"
    by (simp add: imap_unordered_def optimize_arimax_params_on_item_def)
  show ?thesis
  proof (cases "?js = []")
    case True
    then show ?thesis
      unfolding m accumulate_all_TypeError
      by (simp add: flatten_scores_def select_optimal_empty)
  next
    case False
    then show ?thesis
      unfolding m accumulate_all_TypeError by simp
  qed
qed

lemma if_not_eq: "(b \<Longrightarrow> X \<noteq> z) \<Longrightarrow> (\<not> b \<Longrightarrow> Y \<noteq> z) \<Longrightarrow> (if b then X else Y) \<noteq> z"
  by simp

lemma auto_arimax_optimizer_never_returns:
  "auto_arimax_optimizer cpu_count completion y_series arimax_test_params exog_array trend_params
     penalty_criteria generate_seasonal_params seasonality_trend n_jobs max_cores \<noteq> Inr x"
  unfolding auto_arimax_optimizer_def Let_def
  by (rule if_not_eq, rule sum.distinct, rule if_not_eq, rule sum.distinct,
      rule if_not_eq, rule sum.distinct, rule collect_never_returns)

lemma array_split_two: "array_split [PDQ 0 0 0, PDQ 0 0 1] 2 = [[PDQ 0 0 0], [PDQ 0 0 1]]"
  by (simp add: array_split_def numeral_2_eq_2)

text \<open>
  Claim C2 at a concrete search: two candidates, two jobs, the second chunk completing
  first. The call does not return an order: the pool calls the worker with the item as
  its only argument, which raises TypeError.
\<close>

theorem auto_arimax_optimizer_raises:
  "auto_arimax_optimizer 4 [1, 0] [(0, Num 1), (1, Num 2), (2, Num 3)]
     [PDQ 0 0 0, PDQ 0 0 1] None None ''AIC'' False None 2 8 = Inl TypeError"
  by (simp add: auto_arimax_optimizer_def Let_def array_split_two imap_unordered_def
      optimize_arimax_params_on_item_def)

text \<open>
  The accumulation and the selection themselves, on the scores a worker run on the
  unpacked items returns: (0, 0, 0) scores 5 and (0, 0, 1) scores 3. When the chunks
  complete in order the selection is (0, 0, 1); when the second chunk completes first,
  the minimum sits at position 0 of the accumulated list and the selection is (0, 0, 0).
\<close>

lemma selection_depends_on_completion_order:
  "accumulate []
     (imap_unordered (optimize_arimax_params_unpacked scoring_arima)
        [([PDQ 0 0 0], [Num 1, Num 2, Num 3], None, None, ''AIC''),
         ([PDQ 0 0 1], [Num 1, Num 2, Num 3], None, None, ''AIC'')] [0, 1])
     = Inr [Num 5, Num 3]
   \<and> select_optimal [Num 5, Num 3] [PDQ 0 0 0, PDQ 0 0 1] = Inr (PDQ 0 0 1)
   \<and> accumulate []
     (imap_unordered (optimize_arimax_params_unpacked scoring_arima)
        [([PDQ 0 0 0], [Num 1, Num 2, Num 3], None, None, ''AIC''),
         ([PDQ 0 0 1], [Num 1, Num 2, Num 3], None, None, ''AIC'')] [1, 0])
     = Inr [Num 3, Num 5]
   \<and> select_optimal [Num 3, Num 5] [PDQ 0 0 0, PDQ 0 0 1] = Inr (PDQ 0 0 0)"
proof -
  have r5: "round_half_even 500000 = 500000" "round_half_even 300000 = 300000"
    by (simp_all add: round_half_even_def Let_def)
  show ?thesis
    by (simp add: imap_unordered_def optimize_arimax_params_unpacked_def
        check_generated_arimax_params_def scoring_arima_def select_optimal_def r5)
qed

end
